theory Spec2Isabelle
  imports Complex_Main "HOL-Library.AList"
begin

section \<open>Declaration records (stub\_entry.h)\<close>

text \<open>
  The enum \<open>StubType\<close>, the struct \<open>SourceLocation\<close> and the three concrete
  subclasses of the abstract class \<open>StubEntry\<close>. Each subclass constructor fixes the
  type field of the base class, so \<open>entry_getType\<close> is read off the constructor.
\<close>

datatype StubType = CLASS | FUNCTION | VARIABLE | NAMESPACE | ENUM | TYPEDEF

record SourceLocation =
  file_path :: string
  line :: int
  column :: int

record Parameter =
  param_type :: string
  param_name :: string

datatype StubEntry =
    ClassStub (entry_getName: string) (entry_getLocation: SourceLocation) (isStruct: bool)
  | FunctionStub (entry_getName: string) (entry_getLocation: SourceLocation)
      (getReturnType: string) (getParameters: "Parameter list")
  | VariableStub (entry_getName: string) (entry_getLocation: SourceLocation)
      (getVariableType: string) (isConst: bool) (isStatic: bool)

fun entry_getType :: "StubEntry \<Rightarrow> StubType" where
  "entry_getType (ClassStub n l s) = StubType.CLASS"
| "entry_getType (FunctionStub n l r ps) = StubType.FUNCTION"
| "entry_getType (VariableStub n l t c s) = StubType.VARIABLE"

section \<open>Structure nodes (psi\_node.h, psi\_node.cpp)\<close>

datatype PSINodeType =
    FILE | NAMESPACE | CLASS | STRUCT | FUNCTION | VARIABLE | ENUM | TYPEDEF
  | COMPOUND_STATEMENT | IF_STATEMENT | FOR_STATEMENT | WHILE_STATEMENT
  | RETURN_STATEMENT | EXPRESSION_STATEMENT | DECLARATION_STATEMENT
  | BINARY_EXPRESSION | UNARY_EXPRESSION | CALL_EXPRESSION | MEMBER_EXPRESSION
  | LITERAL_EXPRESSION | IDENTIFIER_EXPRESSION
  | BUILTIN_TYPE | QUALIFIED_TYPE | POINTER_TYPE | REFERENCE_TYPE | ARRAY_TYPE
  | COMMENT | PREPROCESSOR_DIRECTIVE | UNKNOWN

text \<open>
  The dynamic class of a node object together with the fields its subclass adds. The base
  class \<open>PSINode\<close> is concrete: \<open>cloneSubtree\<close> and the transformers create plain
  \<open>PSINode\<close> objects whatever their \<open>m_type\<close> tag is.
\<close>

record NodeParameter =
  np_type :: string
  np_name :: string
  np_default_value :: string

datatype NodeClass =
    PSINodeBase
  | PSIFileNode (fn_file_path: string) (fn_content: string)
  | PSINamespaceNode (nn_name: string)
  | PSIClassNode (cn_name: string) (cn_is_struct: bool) (cn_is_abstract: bool)
  | PSIFunctionNode (fu_name: string) (fu_return_type: string)
      (fu_parameters: "NodeParameter list")
      (fu_is_virtual: bool) (fu_is_static: bool) (fu_is_const: bool) (fu_is_override: bool)
  | PSIVariableNode (vn_name: string) (vn_var_type: string)
      (vn_is_const: bool) (vn_is_static: bool) (vn_is_member: bool) (vn_is_parameter: bool)

text \<open>
  The fields of the base class. \<open>m_semantic_info\<close> (an unordered map from string to string)
  is an association list with unique keys, written through \<open>AList.update\<close> and read
  through \<open>map_of\<close>.
\<close>

record NodeData =
  m_type :: PSINodeType
  m_text :: string
  m_location :: SourceLocation
  m_text_range :: "nat \<times> nat"
  m_semantic_info :: "(string \<times> string) list"
  m_class :: NodeClass

text \<open>
  A node owns its children (a vector of shared pointers that \<open>addChild\<close> keeps free of
  null), so a subtree is a value of a rose-tree datatype. A nullable \<open>PSINode*\<close>
  argument is a \<open>PSINode option\<close>, \<open>None\<close> being \<open>nullptr\<close>. The operations that
  follow parent pointers or re-link live nodes are modelled over an explicit store further
  below.
\<close>

datatype PSINode = Node (data: NodeData) (getChildren: "PSINode list")

definition getType :: "PSINode \<Rightarrow> PSINodeType" where
  "getType n = m_type (data n)"

definition getText :: "PSINode \<Rightarrow> string" where
  "getText n = m_text (data n)"

definition getLocation :: "PSINode \<Rightarrow> SourceLocation" where
  "getLocation n = m_location (data n)"

text \<open>The constructors of \<open>PSINode\<close> and of its five subclasses.\<close>

definition new_PSINode :: "PSINodeType \<Rightarrow> string \<Rightarrow> SourceLocation \<Rightarrow> PSINode" where
  "new_PSINode t txt loc =
     Node \<lparr>m_type = t, m_text = txt, m_location = loc, m_text_range = (0, 0),
           m_semantic_info = [], m_class = PSINodeBase\<rparr> []"

definition new_PSIFileNode :: "string \<Rightarrow> string \<Rightarrow> PSINode" where
  "new_PSIFileNode path content =
     Node \<lparr>m_type = PSINodeType.FILE, m_text = path,
           m_location = \<lparr>file_path = path, line = 1, column = 1\<rparr>,
           m_text_range = (0, length content),
           m_semantic_info = [], m_class = PSIFileNode path content\<rparr> []"

definition new_PSINamespaceNode :: "string \<Rightarrow> SourceLocation \<Rightarrow> PSINode" where
  "new_PSINamespaceNode name loc =
     Node \<lparr>m_type = PSINodeType.NAMESPACE, m_text = name, m_location = loc,
           m_text_range = (0, 0), m_semantic_info = [], m_class = PSINamespaceNode name\<rparr> []"

definition new_PSIClassNode :: "string \<Rightarrow> SourceLocation \<Rightarrow> bool \<Rightarrow> PSINode" where
  "new_PSIClassNode name loc is_struct =
     Node \<lparr>m_type = (if is_struct then PSINodeType.STRUCT else PSINodeType.CLASS),
           m_text = name, m_location = loc, m_text_range = (0, 0), m_semantic_info = [],
           m_class = PSIClassNode name is_struct False\<rparr> []"

definition new_PSIFunctionNode :: "string \<Rightarrow> SourceLocation \<Rightarrow> string \<Rightarrow> PSINode" where
  "new_PSIFunctionNode name loc return_type =
     Node \<lparr>m_type = PSINodeType.FUNCTION, m_text = name, m_location = loc,
           m_text_range = (0, 0), m_semantic_info = [],
           m_class = PSIFunctionNode name return_type [] False False False False\<rparr> []"

definition new_PSIVariableNode :: "string \<Rightarrow> SourceLocation \<Rightarrow> string \<Rightarrow> PSINode" where
  "new_PSIVariableNode name loc var_type =
     Node \<lparr>m_type = PSINodeType.VARIABLE, m_text = name, m_location = loc,
           m_text_range = (0, 0), m_semantic_info = [],
           m_class = PSIVariableNode name var_type False False False False\<rparr> []"

text \<open>\<open>addChild\<close> ignores a null child and appends any other one.\<close>

fun addChild :: "PSINode \<Rightarrow> PSINode option \<Rightarrow> PSINode" where
  "addChild p None = p"
| "addChild (Node d cs) (Some c) = Node d (cs @ [c])"

definition setSemanticInfo :: "PSINode \<Rightarrow> string \<Rightarrow> string \<Rightarrow> PSINode" where
  "setSemanticInfo n key v =
     Node ((data n)\<lparr>m_semantic_info := AList.update key v (m_semantic_info (data n))\<rparr>)
          (getChildren n)"

definition getSemanticInfo :: "PSINode \<Rightarrow> string \<Rightarrow> string" where
  "getSemanticInfo n key =
     (case map_of (m_semantic_info (data n)) key of None \<Rightarrow> [] | Some v \<Rightarrow> v)"

definition hasSemanticInfo :: "PSINode \<Rightarrow> string \<Rightarrow> bool" where
  "hasSemanticInfo n key = (map_of (m_semantic_info (data n)) key \<noteq> None)"

section \<open>Tree operations (psi\_tree\_operations.cpp)\<close>

text \<open>
  The private collectors take the result vector by reference; here they take it as an
  argument and return it extended. Each starts with the null check of the source.
\<close>

fun collectNodesByType :: "PSINode option \<Rightarrow> PSINodeType \<Rightarrow> PSINode list \<Rightarrow> PSINode list" where
  "collectNodesByType None t result = result"
| "collectNodesByType (Some (Node d cs)) t result =
     foldl (\<lambda>r c. collectNodesByType (Some c) t r)
       (if m_type d = t then result @ [Node d cs] else result) cs"

fun collectNodesByCondition ::
  "PSINode option \<Rightarrow> (PSINode \<Rightarrow> bool) \<Rightarrow> PSINode list \<Rightarrow> PSINode list" where
  "collectNodesByCondition None cond result = result"
| "collectNodesByCondition (Some (Node d cs)) cond result =
     foldl (\<lambda>r c. collectNodesByCondition (Some c) cond r)
       (if cond (Node d cs) then result @ [Node d cs] else result) cs"

fun collectDescendants :: "PSINode option \<Rightarrow> PSINode list \<Rightarrow> PSINode list" where
  "collectDescendants None result = result"
| "collectDescendants (Some (Node d cs)) result =
     foldl (\<lambda>r c. collectDescendants (Some c) (r @ [c])) result cs"

fun calculateDepth :: "PSINode option \<Rightarrow> int" where
  "calculateDepth None = 1"
| "calculateDepth (Some (Node d cs)) =
     (if cs = [] then 1
      else foldl (\<lambda>max_depth c. max max_depth (calculateDepth (Some c))) 0 cs + 1)"

fun calculateSubtreeSize :: "PSINode option \<Rightarrow> int" where
  "calculateSubtreeSize None = 0"
| "calculateSubtreeSize (Some (Node d cs)) =
     foldl (\<lambda>size c. size + calculateSubtreeSize (Some c)) 1 cs"

fun collectLeafNodes :: "PSINode option \<Rightarrow> PSINode list \<Rightarrow> PSINode list" where
  "collectLeafNodes None result = result"
| "collectLeafNodes (Some (Node d cs)) result =
     (if cs = [] then result @ [Node d cs]
      else foldl (\<lambda>r c. collectLeafNodes (Some c) r) result cs)"

fun collectBranchNodes :: "PSINode option \<Rightarrow> PSINode list \<Rightarrow> PSINode list" where
  "collectBranchNodes None result = result"
| "collectBranchNodes (Some (Node d cs)) result =
     (if cs \<noteq> [] then foldl (\<lambda>r c. collectBranchNodes (Some c) r) (result @ [Node d cs]) cs
      else result)"

definition findAllNodes :: "PSINode option \<Rightarrow> PSINodeType \<Rightarrow> PSINode list" where
  "findAllNodes root_node t = collectNodesByType root_node t []"

definition findNodesByCondition :: "PSINode option \<Rightarrow> (PSINode \<Rightarrow> bool) \<Rightarrow> PSINode list" where
  "findNodesByCondition root_node cond = collectNodesByCondition root_node cond []"

definition findNodesByName :: "PSINode option \<Rightarrow> string \<Rightarrow> PSINode list" where
  "findNodesByName root_node name = findNodesByCondition root_node (\<lambda>node. getText node = name)"

definition findFirstNodeByName :: "PSINode option \<Rightarrow> string \<Rightarrow> PSINode option" where
  "findFirstNodeByName root_node name =
     (let nodes = findNodesByName root_node name in if nodes = [] then None else Some (nodes ! 0))"

definition findNodesInFile :: "PSINode option \<Rightarrow> string \<Rightarrow> PSINode list" where
  "findNodesInFile root_node path =
     findNodesByCondition root_node (\<lambda>node. file_path (getLocation node) = path)"

definition findNodesInLineRange :: "PSINode option \<Rightarrow> int \<Rightarrow> int \<Rightarrow> PSINode list" where
  "findNodesInLineRange root_node start_line end_line =
     findNodesByCondition root_node
       (\<lambda>node. line (getLocation node) \<ge> start_line \<and> line (getLocation node) \<le> end_line)"

definition getAllDescendants :: "PSINode option \<Rightarrow> PSINode list" where
  "getAllDescendants node = collectDescendants node []"

definition getTreeDepth :: "PSINode option \<Rightarrow> int" where
  "getTreeDepth root_node = calculateDepth root_node"

definition getSubtreeSize :: "PSINode option \<Rightarrow> int" where
  "getSubtreeSize node = calculateSubtreeSize node"

definition getLeafNodes :: "PSINode option \<Rightarrow> PSINode list" where
  "getLeafNodes root_node = collectLeafNodes root_node []"

definition getBranchNodes :: "PSINode option \<Rightarrow> PSINode list" where
  "getBranchNodes root_node = collectBranchNodes root_node []"

text \<open>
  \<open>cloneSubtree\<close> builds a plain \<open>PSINode\<close> from the type, text and location of the
  root and adds the clone of each child, in order.
\<close>

fun cloneSubtree :: "PSINode option \<Rightarrow> PSINode option" where
  "cloneSubtree None = None"
| "cloneSubtree (Some (Node d cs)) =
     Some (foldl (\<lambda>clone c. addChild clone (cloneSubtree (Some c)))
                 (new_PSINode (m_type d) (m_text d) (m_location d)) cs)"

subsection \<open>Double-precision arithmetic\<close>

text \<open>
  \<open>calculateNodeSimilarity\<close> and \<open>calculateSimilarity\<close> compute with C++ doubles. A
  finite double is modelled by the rational number it denotes, and every arithmetic
  operation returns the exact result rounded to the nearest double, ties to the even
  significand: IEEE 754 binary64 in its default rounding mode, with 53 significant bits
  and gradual underflow below \<open>2 ^ -1022\<close>. Each operation of the source is rounded on its
  own, in source order (no fused multiply-add, no wider intermediate precision). Overflow
  to infinity is not modelled: no value these functions compute exceeds the number of
  children of a node.

  \<open>binary_exponent x\<close> is the integer \<open>e\<close> with \<open>2 ^ e \<le> x < 2 ^ (e + 1)\<close> for a positive
  \<open>x\<close>, found by halving or doubling.
\<close>

type_synonym double = rat

definition pow2 :: "int \<Rightarrow> rat" where
  "pow2 k = (if 0 \<le> k then 2 ^ nat k else 1 / 2 ^ nat (- k))"

function exp_up :: "rat \<Rightarrow> nat" where
  "exp_up x = (if x < 2 then 0 else Suc (exp_up (x / 2)))"
  by pat_completeness auto
termination
proof (relation "measure (\<lambda>x. nat \<lfloor>x\<rfloor>)")
  show "wf (measure (\<lambda>x::rat. nat \<lfloor>x\<rfloor>))" by simp
next
  fix x :: rat
  assume "\<not> x < 2"
  then have "x / 2 \<le> x - 1" by simp
  then have "\<lfloor>x / 2\<rfloor> \<le> \<lfloor>x - 1\<rfloor>" by (rule floor_mono)
  moreover have "1 \<le> \<lfloor>x\<rfloor>" using \<open>\<not> x < 2\<close> by (simp add: le_floor_iff)
  ultimately show "(x / 2, x) \<in> measure (\<lambda>x. nat \<lfloor>x\<rfloor>)" by simp
qed

function exp_down :: "rat \<Rightarrow> nat" where
  "exp_down x = (if x \<le> 0 \<or> 1 \<le> x then 0 else Suc (exp_down (2 * x)))"
  by pat_completeness auto
termination
proof (relation "measure (\<lambda>x. nat \<lfloor>1 / x\<rfloor>)")
  show "wf (measure (\<lambda>x::rat. nat \<lfloor>1 / x\<rfloor>))" by simp
next
  fix x :: rat
  assume "\<not> (x \<le> 0 \<or> 1 \<le> x)"
  then have x: "0 < x" "x < 1" by simp_all
  then have "1 < 1 / x" by simp
  then have one: "1 \<le> \<lfloor>1 / x\<rfloor>" by (simp add: le_floor_iff)
  have "1 / (2 * x) = (1 / x) / 2" by simp
  also have "\<dots> \<le> 1 / x - 1 / 2" using \<open>1 < 1 / x\<close> by simp
  finally have "\<lfloor>1 / (2 * x)\<rfloor> \<le> \<lfloor>1 / x - 1 / 2\<rfloor>" by (rule floor_mono)
  also have "\<dots> \<le> \<lfloor>1 / x\<rfloor>" by (rule floor_mono) simp
  finally have le: "\<lfloor>1 / (2 * x)\<rfloor> \<le> \<lfloor>1 / x\<rfloor>" .
  have "\<lfloor>1 / (2 * x)\<rfloor> < \<lfloor>1 / x\<rfloor>"
  proof (rule ccontr)
    assume "\<not> \<lfloor>1 / (2 * x)\<rfloor> < \<lfloor>1 / x\<rfloor>"
    with le have eq: "\<lfloor>1 / (2 * x)\<rfloor> = \<lfloor>1 / x\<rfloor>" by simp
    have "of_int \<lfloor>1 / x\<rfloor> \<le> 1 / (2 * x)" using eq by (metis of_int_floor_le)
    moreover have "1 / x < of_int \<lfloor>1 / x\<rfloor> + 1" by linarith
    moreover have "1 / (2 * x) = (1 / x) / 2" by simp
    ultimately have "of_int \<lfloor>1 / x\<rfloor> < (1::rat)" by linarith
    with one show False by simp
  qed
  with one show "(2 * x, x) \<in> measure (\<lambda>x. nat \<lfloor>1 / x\<rfloor>)" by simp
qed

declare exp_up.simps [simp del]

declare exp_down.simps [simp del]

definition binary_exponent :: "rat \<Rightarrow> int" where
  "binary_exponent x = (if 1 \<le> x then int (exp_up x) else - int (exp_down x))"

definition round_half_even :: "rat \<Rightarrow> int" where
  "round_half_even q =
     (let n = \<lfloor>q\<rfloor>; r = q - of_int n
      in if r < 1 / 2 then n else if 1 / 2 < r then n + 1 else if even n then n else n + 1)"

definition round_double :: "rat \<Rightarrow> double" where
  "round_double x =
     (if x = 0 then 0
      else
        let e = max (binary_exponent \<bar>x\<bar>) (- 1022);
            ulp = pow2 (e - 52)
        in of_int (round_half_even (x / ulp)) * ulp)"








subsection \<open>Similarity\<close>



text \<open>
  \<open>findDifferences\<close>: the inner loop of the source sets \<open>found\<close> and breaks at the first
  node of \<open>nodes2\<close> with the same type and text.
\<close>

fun found_in :: "PSINode \<Rightarrow> PSINode list \<Rightarrow> bool" where
  "found_in node1 [] = False"
| "found_in node1 (node2 # rest) =
     (if getType node1 = getType node2 \<and> getText node1 = getText node2 then True
      else found_in node1 rest)"

definition findDifferences :: "PSINode option \<Rightarrow> PSINode option \<Rightarrow> PSINode list" where
  "findDifferences tree1 tree2 =
     (if tree1 = None \<or> tree2 = None then []
      else
        let nodes1 = getAllDescendants tree1;
            nodes2 = getAllDescendants tree2
        in foldl (\<lambda>differences node1.
                    if \<not> found_in node1 nodes2 then differences @ [node1] else differences)
                 [] nodes1)"

section \<open>Tree query (psi\_tree\_operations.cpp)\<close>

text \<open>
  A query object holds the root and the list of filters collected so far. \<open>isRoot\<close>
  tests the parent pointer of a node and is not part of this value model.
\<close>

record PSITreeQuery =
  q_root :: "PSINode option"
  q_filters :: "(PSINode \<Rightarrow> bool) list"

definition new_PSITreeQuery :: "PSINode option \<Rightarrow> PSITreeQuery" where
  "new_PSITreeQuery root_node = \<lparr>q_root = root_node, q_filters = []\<rparr>"

definition ofType :: "PSINodeType \<Rightarrow> PSITreeQuery \<Rightarrow> PSITreeQuery" where
  "ofType t q = q\<lparr>q_filters := q_filters q @ [\<lambda>node. getType node = t]\<rparr>"

definition withName :: "string \<Rightarrow> PSITreeQuery \<Rightarrow> PSITreeQuery" where
  "withName name q = q\<lparr>q_filters := q_filters q @ [\<lambda>node. getText node = name]\<rparr>"

definition inFile :: "string \<Rightarrow> PSITreeQuery \<Rightarrow> PSITreeQuery" where
  "inFile path q =
     q\<lparr>q_filters := q_filters q @ [\<lambda>node. file_path (getLocation node) = path]\<rparr>"

definition inLineRange :: "int \<Rightarrow> int \<Rightarrow> PSITreeQuery \<Rightarrow> PSITreeQuery" where
  "inLineRange start_line end_line q =
     q\<lparr>q_filters := q_filters q @
        [\<lambda>node. line (getLocation node) \<ge> start_line \<and> line (getLocation node) \<le> end_line]\<rparr>"

definition withSemanticInfo :: "string \<Rightarrow> string \<Rightarrow> PSITreeQuery \<Rightarrow> PSITreeQuery" where
  "withSemanticInfo key v q =
     q\<lparr>q_filters := q_filters q @ [\<lambda>node. getSemanticInfo node key = v]\<rparr>"

definition isLeaf :: "PSITreeQuery \<Rightarrow> PSITreeQuery" where
  "isLeaf q = q\<lparr>q_filters := q_filters q @ [\<lambda>node. getChildren node = []]\<rparr>"

fun filters_hold :: "(PSINode \<Rightarrow> bool) list \<Rightarrow> PSINode \<Rightarrow> bool" where
  "filters_hold [] node = True"
| "filters_hold (f # fs) node = (if \<not> f node then False else filters_hold fs node)"

definition matchesFilters :: "PSITreeQuery \<Rightarrow> PSINode \<Rightarrow> bool" where
  "matchesFilters q node = filters_hold (q_filters q) node"

definition execute :: "PSITreeQuery \<Rightarrow> PSINode list" where
  "execute q =
     (if q_root q = None then []
      else findNodesByCondition (q_root q) (\<lambda>node. matchesFilters q node))"

definition first :: "PSITreeQuery \<Rightarrow> PSINode option" where
  "first q = (let results = execute q in if results = [] then None else Some (results ! 0))"

definition count :: "PSITreeQuery \<Rightarrow> nat" where
  "count q = length (execute q)"

section \<open>Tree transformer (psi\_tree\_transformer.cpp)\<close>

text \<open>
  The mapper is a function from a source node (with its subtree in view) to an optional
  replacement; \<open>None\<close> is the null shared pointer. The replacement may already have
  children of its own: \<open>addChild\<close> appends to them. Replacements are values, so the
  model covers mappers that return a fresh node on every call, as all mappers of the
  source do.
\<close>

fun transformNode :: "PSINode option \<Rightarrow> (PSINode \<Rightarrow> PSINode option) \<Rightarrow> PSINode option" where
  "transformNode None transformer = None"
| "transformNode (Some (Node d cs)) transformer =
     (case transformer (Node d cs) of
        None \<Rightarrow> None
      | Some transformed_node \<Rightarrow>
          Some (foldl (\<lambda>acc child.
                         case transformNode (Some child) transformer of
                           None \<Rightarrow> acc
                         | Some transformed_child \<Rightarrow> addChild acc (Some transformed_child))
                      transformed_node cs))"

definition transformTree :: "PSINode option \<Rightarrow> (PSINode \<Rightarrow> PSINode option) \<Rightarrow> PSINode option" where
  "transformTree root_node transformer =
     (if root_node = None then None else transformNode root_node transformer)"

definition simplify_transformer :: "PSINode \<Rightarrow> PSINode option" where
  "simplify_transformer node =
     (if getType node \<in> {PSINodeType.FILE, PSINodeType.CLASS, PSINodeType.FUNCTION,
                           PSINodeType.VARIABLE}
      then Some (new_PSINode (getType node) (getText node) (getLocation node))
      else None)"

definition simplifyTree :: "PSINode option \<Rightarrow> PSINode option" where
  "simplifyTree root_node = transformTree root_node simplify_transformer"

section \<open>Visitor (psi\_visitor.h and the accept methods of psi\_node.cpp)\<close>

text \<open>
  The base class \<open>PSIVisitor\<close> has no state of its own. To observe which of its virtual
  methods run, the model threads a log through them: every kind-specific method and
  \<open>visitNode\<close> appends its name and the text of its node on entry. The methods call each
  other in a cycle (\<open>visit\<close>, \<open>accept\<close>, a kind-specific method, \<open>visitNode\<close>, and
  \<open>visit\<close> again on each child), so they form one recursive function whose first argument
  names the method. \<open>accept\<close> is a member function of the node: it is only ever called
  on a non-null node, and its equation for \<open>None\<close> is never reached from \<open>visit\<close>.
  \<open>PSINode::accept\<close> has an empty body; the five subclasses override it.
\<close>

datatype VisitorMethod =
  visit | accept | visitFile | visitNamespace | visitClass | visitFunction | visitVariable
  | visitNode

fun method_rank :: "VisitorMethod \<Rightarrow> nat" where
  "method_rank visit = 3"
| "method_rank accept = 2"
| "method_rank visitNode = 0"
| "method_rank m = 1"

definition node_text :: "PSINode option \<Rightarrow> string" where
  "node_text p = (case p of None \<Rightarrow> [] | Some n \<Rightarrow> getText n)"

function PSIVisitor ::
  "VisitorMethod \<Rightarrow> PSINode option \<Rightarrow> (VisitorMethod \<times> string) list
     \<Rightarrow> (VisitorMethod \<times> string) list"
where
  "PSIVisitor visit None tr = tr"
| "PSIVisitor visit (Some n) tr = PSIVisitor accept (Some n) tr"
| "PSIVisitor accept None tr = tr"
| "PSIVisitor accept (Some (Node d cs)) tr =
     (case m_class d of
        PSINodeBase \<Rightarrow> tr
      | PSIFileNode p c \<Rightarrow> PSIVisitor visitFile (Some (Node d cs)) tr
      | PSINamespaceNode nm \<Rightarrow> PSIVisitor visitNamespace (Some (Node d cs)) tr
      | PSIClassNode nm s a \<Rightarrow> PSIVisitor visitClass (Some (Node d cs)) tr
      | PSIFunctionNode nm r ps v s c ov \<Rightarrow> PSIVisitor visitFunction (Some (Node d cs)) tr
      | PSIVariableNode nm t c s m p \<Rightarrow> PSIVisitor visitVariable (Some (Node d cs)) tr)"
| "PSIVisitor visitFile n tr = PSIVisitor visitNode n (tr @ [(visitFile, node_text n)])"
| "PSIVisitor visitNamespace n tr =
     PSIVisitor visitNode n (tr @ [(visitNamespace, node_text n)])"
| "PSIVisitor visitClass n tr = PSIVisitor visitNode n (tr @ [(visitClass, node_text n)])"
| "PSIVisitor visitFunction n tr =
     PSIVisitor visitNode n (tr @ [(visitFunction, node_text n)])"
| "PSIVisitor visitVariable n tr =
     PSIVisitor visitNode n (tr @ [(visitVariable, node_text n)])"
| "PSIVisitor visitNode None tr = tr"
| "PSIVisitor visitNode (Some (Node d cs)) tr =
     foldl (\<lambda>t c. PSIVisitor visit (Some c) t) (tr @ [(visitNode, m_text d)]) cs"
  by pat_completeness auto
termination
  apply (relation "measure (\<lambda>(m, p, tr).
           4 * (case p of None \<Rightarrow> 0 | Some n \<Rightarrow> size n) + method_rank m)")
             apply simp_all
  apply (clarsimp simp: less_Suc_eq_le)
  apply (drule size_list_estimation' [where f = size and y = "size c" for c, OF _ order_refl])
  apply simp
  done

section \<open>Tree builder (psi\_tree\_builder.cpp)\<close>

definition addParameter :: "PSINode \<Rightarrow> string \<Rightarrow> string \<Rightarrow> string \<Rightarrow> PSINode" where
  "addParameter n t nm dv =
     (case m_class (data n) of
        PSIFunctionNode name rt ps v s c ov \<Rightarrow>
          Node ((data n)\<lparr>m_class :=
                  PSIFunctionNode name rt
                    (ps @ [\<lparr>np_type = t, np_name = nm, np_default_value = dv\<rparr>]) v s c ov\<rparr>)
               (getChildren n)
      | _ \<Rightarrow> n)"

definition setConst :: "PSINode \<Rightarrow> bool \<Rightarrow> PSINode" where
  "setConst n b =
     (case m_class (data n) of
        PSIVariableNode name t c s m p \<Rightarrow>
          Node ((data n)\<lparr>m_class := PSIVariableNode name t b s m p\<rparr>) (getChildren n)
      | _ \<Rightarrow> n)"

definition setStatic :: "PSINode \<Rightarrow> bool \<Rightarrow> PSINode" where
  "setStatic n b =
     (case m_class (data n) of
        PSIVariableNode name t c s m p \<Rightarrow>
          Node ((data n)\<lparr>m_class := PSIVariableNode name t c b m p\<rparr>) (getChildren n)
      | _ \<Rightarrow> n)"

definition createClassNode :: "StubEntry \<Rightarrow> PSINode" where
  "createClassNode entry =
     setSemanticInfo
       (new_PSIClassNode (entry_getName entry) (entry_getLocation entry) (isStruct entry))
       ''stub_id'' (entry_getName entry)"

definition createFunctionNode :: "StubEntry \<Rightarrow> PSINode" where
  "createFunctionNode entry =
     (let node = new_PSIFunctionNode (entry_getName entry) (entry_getLocation entry)
                   (getReturnType entry);
          node = foldl (\<lambda>n param. addParameter n (param_type param) (param_name param) [])
                   node (getParameters entry)
      in setSemanticInfo node ''stub_id'' (entry_getName entry))"

definition createVariableNode :: "StubEntry \<Rightarrow> PSINode" where
  "createVariableNode entry =
     (let node = new_PSIVariableNode (entry_getName entry) (entry_getLocation entry)
                   (getVariableType entry);
          node = setConst node (isConst entry);
          node = setStatic node (isStatic entry)
      in setSemanticInfo node ''stub_id'' (entry_getName entry))"

definition buildClassStructure :: "PSINode \<Rightarrow> StubEntry list \<Rightarrow> PSINode" where
  "buildClassStructure parent stubs =
     foldl (\<lambda>p stub. if entry_getType stub = StubType.CLASS
                      then addChild p (Some (createClassNode stub)) else p) parent stubs"

definition buildFunctionStructure :: "PSINode \<Rightarrow> StubEntry list \<Rightarrow> PSINode" where
  "buildFunctionStructure parent stubs =
     foldl (\<lambda>p stub. if entry_getType stub = StubType.FUNCTION
                      then addChild p (Some (createFunctionNode stub)) else p) parent stubs"

definition buildVariableStructure :: "PSINode \<Rightarrow> StubEntry list \<Rightarrow> PSINode" where
  "buildVariableStructure parent stubs =
     foldl (\<lambda>p stub. if entry_getType stub = StubType.VARIABLE
                      then addChild p (Some (createVariableNode stub)) else p) parent stubs"

text \<open>
  \<open>buildTreeFromContent\<close> obtains the record list from \<open>StubParser::parseCode\<close>. The
  parser is a parameter here: the tree is a function of the record list it returns.
\<close>

definition buildTreeFromContent ::
  "(string \<Rightarrow> string \<Rightarrow> StubEntry list) \<Rightarrow> string \<Rightarrow> string \<Rightarrow> PSINode" where
  "buildTreeFromContent parseCode path content =
     (let file_node = new_PSIFileNode path content;
          stubs = parseCode content path
      in if stubs = [] then file_node
         else buildVariableStructure
                (buildFunctionStructure (buildClassStructure file_node stubs) stubs) stubs)"

section \<open>Declaration record store (stub\_index.h, stub\_index.cpp)\<close>

record StubIndex =
  name_index :: "string \<rightharpoonup> StubEntry list"
  type_index :: "StubType \<rightharpoonup> StubEntry list"
  file_index :: "string \<rightharpoonup> StubEntry list"
  all_entries :: "StubEntry list"

record QueryFilter =
  type_filter :: StubType
  name_pattern :: string
  file_pattern :: string

definition new_StubIndex :: StubIndex where
  "new_StubIndex =
     \<lparr>name_index = Map.empty, type_index = Map.empty, file_index = Map.empty,
      all_entries = []\<rparr>"

text \<open>\<open>m[k].push_back(v)\<close>: \<open>operator[]\<close> creates an empty vector for a new key.\<close>

definition push_back_at :: "('k \<rightharpoonup> 'v list) \<Rightarrow> 'k \<Rightarrow> 'v \<Rightarrow> ('k \<rightharpoonup> 'v list)" where
  "push_back_at m k v = m(k \<mapsto> (case m k of None \<Rightarrow> [] | Some vs \<Rightarrow> vs) @ [v])"

definition addEntry :: "StubIndex \<Rightarrow> StubEntry option \<Rightarrow> StubIndex" where
  "addEntry idx entry =
     (case entry of
        None \<Rightarrow> idx
      | Some e \<Rightarrow>
          \<lparr>name_index = push_back_at (name_index idx) (entry_getName e) e,
           type_index = push_back_at (type_index idx) (entry_getType e) e,
           file_index = push_back_at (file_index idx) (file_path (entry_getLocation e)) e,
           all_entries = all_entries idx @ [e]\<rparr>)"

definition queryByName :: "StubIndex \<Rightarrow> string \<Rightarrow> StubEntry list" where
  "queryByName idx name = (case name_index idx name of None \<Rightarrow> [] | Some es \<Rightarrow> es)"

definition queryByType :: "StubIndex \<Rightarrow> StubType \<Rightarrow> StubEntry list" where
  "queryByType idx t = (case type_index idx t of None \<Rightarrow> [] | Some es \<Rightarrow> es)"

definition queryByFile :: "StubIndex \<Rightarrow> string \<Rightarrow> StubEntry list" where
  "queryByFile idx path = (case file_index idx path of None \<Rightarrow> [] | Some es \<Rightarrow> es)"

text \<open>
  \<open>std::string::find\<close>: the least position at which the pattern occurs, \<open>None\<close> for
  \<open>npos\<close>.
\<close>

fun str_find :: "string \<Rightarrow> string \<Rightarrow> nat option" where
  "str_find [] pat = (if pat = [] then Some 0 else None)"
| "str_find (c # cs) pat =
     (if take (length pat) (c # cs) = pat then Some 0
      else map_option Suc (str_find cs pat))"

definition query :: "StubIndex \<Rightarrow> QueryFilter \<Rightarrow> StubEntry list" where
  "query idx flt =
     (if name_pattern flt \<noteq> [] then
        foldl (\<lambda>result entry.
                 if type_filter flt \<noteq> StubType.TYPEDEF
                    \<and> entry_getType entry \<noteq> type_filter flt then result
                 else if file_pattern flt \<noteq> []
                    \<and> str_find (file_path (entry_getLocation entry)) (file_pattern flt) = None
                 then result
                 else result @ [entry])
              [] (queryByName idx (name_pattern flt))
      else if type_filter flt \<noteq> StubType.CLASS then
        foldl (\<lambda>result entry.
                 if file_pattern flt \<noteq> []
                    \<and> str_find (file_path (entry_getLocation entry)) (file_pattern flt) = None
                 then result
                 else result @ [entry])
              [] (queryByType idx (type_filter flt))
      else if file_pattern flt \<noteq> [] then
        foldl (\<lambda>result entry. result @ [entry]) [] (queryByFile idx (file_pattern flt))
      else all_entries idx)"

section \<open>Parent pointers and re-linking: the store model\<close>

text \<open>
  \<open>getAncestors\<close> follows the non-owning parent pointers and \<open>removeNode\<close> re-links
  live nodes that other places still refer to, so both are modelled over a store: an object
  has an address, \<open>obj_parent\<close> is the \<open>parent_\<close> pointer (\<open>None\<close> for null) and
  \<open>obj_children\<close> lists the addresses held by the \<open>children_\<close> vector. Objects are
  never deallocated in the model (the caller is taken to hold a shared pointer to every
  node it inspects afterwards). Dereferencing a null pointer is undefined behaviour in the
  source and a fault value here.
\<close>

record NodeObject =
  obj_type :: PSINodeType
  obj_text :: string
  obj_parent :: "nat option"
  obj_children :: "nat list"

type_synonym store = "nat \<Rightarrow> NodeObject"

datatype fault = NullPointerDereference | InvalidatedIterator

text \<open>
  The \<open>while (current)\<close> loop of \<open>getAncestors\<close>. It does not return when the parent
  pointers form a cycle, hence the option result: \<open>None\<close> means that the loop runs forever.
\<close>

partial_function (option) ancestors_loop :: "store \<Rightarrow> nat option \<Rightarrow> nat list \<Rightarrow> nat list option" where
  "ancestors_loop h current ancestors =
     (case current of
        None \<Rightarrow> Some ancestors
      | Some c \<Rightarrow> ancestors_loop h (obj_parent (h c)) (ancestors @ [c]))"

definition getAncestors :: "store \<Rightarrow> nat option \<Rightarrow> (fault + nat list) option" where
  "getAncestors h node =
     (case node of
        None \<Rightarrow> Some (Inl NullPointerDereference)
      | Some n \<Rightarrow>
          map_option (\<lambda>ancestors. Inr (rev ancestors))
            (ancestors_loop h (obj_parent (h n)) []))"

definition setParent :: "store \<Rightarrow> nat \<Rightarrow> nat option \<Rightarrow> store" where
  "setParent h n p = h(n := (h n)\<lparr>obj_parent := p\<rparr>)"

definition push_back_child :: "store \<Rightarrow> nat \<Rightarrow> nat \<Rightarrow> store" where
  "push_back_child h p c = h(p := (h p)\<lparr>obj_children := obj_children (h p) @ [c]\<rparr>)"

text \<open>
  \<open>removeNode\<close>. With \<open>keep_children\<close> the source iterates over the children vector of
  \<open>node\<close> while appending to the children vector of \<open>parent\<close>; these are the same vector
  only if the node is its own parent, where the iteration is invalidated (a fault here).
  \<open>std::find_if\<close> followed by \<open>erase\<close> removes the first occurrence of \<open>node\<close>.
  The source never assigns the parent pointer of \<open>node\<close>.
\<close>

definition removeNode :: "store \<Rightarrow> nat option \<Rightarrow> bool \<Rightarrow> fault + store" where
  "removeNode h node keep_children =
     (case node of
        None \<Rightarrow> Inr h
      | Some n \<Rightarrow>
          (case obj_parent (h n) of
             None \<Rightarrow> Inr h
           | Some parent \<Rightarrow>
               if keep_children \<and> parent = n \<and> obj_children (h n) \<noteq> []
               then Inl InvalidatedIterator
               else
                 let h1 = (if keep_children
                           then foldl (\<lambda>s child.
                                         push_back_child (setParent s child (Some parent))
                                           parent child)
                                      h (obj_children (h n))
                           else h)
                 in Inr (h1(parent := (h1 parent)
                           \<lparr>obj_children := remove1 n (obj_children (h1 parent))\<rparr>))))"

section \<open>Notions used in the statements\<close>

text \<open>
  The pre-order listing of a subtree (the node, then the listings of its children from left
  to right), and the (kind, text) pair of a node.
\<close>

fun preorder :: "PSINode \<Rightarrow> PSINode list" where
  "preorder (Node d cs) = Node d cs # concat (map preorder cs)"

definition kind_text :: "PSINode \<Rightarrow> PSINodeType \<times> string" where
  "kind_text n = (getType n, getText n)"

text \<open>The plain copy of a subtree: type, text and location of every node, nothing else.\<close>

fun clone_node :: "PSINode \<Rightarrow> PSINode" where
  "clone_node (Node d cs) =
     Node \<lparr>m_type = m_type d, m_text = m_text d, m_location = m_location d,
           m_text_range = (0, 0), m_semantic_info = [], m_class = PSINodeBase\<rparr>
          (map clone_node cs)"

text \<open>A store in which no object has a parent or a child.\<close>

definition empty_store :: store where
  "empty_store =
     (\<lambda>a. \<lparr>obj_type = PSINodeType.UNKNOWN, obj_text = [], obj_parent = None,
            obj_children = []\<rparr>)"



text \<open>Two one-node trees that differ in kind and text.\<close>

definition leafA :: PSINode where
  "leafA = new_PSINode PSINodeType.FILE ''a'' \<lparr>file_path = ''a'', line = 1, column = 1\<rparr>"

definition leafB :: PSINode where
  "leafB =
     new_PSINode PSINodeType.FUNCTION ''b'' \<lparr>file_path = ''b'', line = 1, column = 1\<rparr>"

text \<open>
  A small tree: a file with a class \<open>A\<close> and a namespace \<open>N\<close> that contains a function
  \<open>g\<close>; and a plain node of kind \<open>ENUM\<close> with the function \<open>g\<close> as its child.
\<close>

definition sample_loc :: SourceLocation where
  "sample_loc = \<lparr>file_path = ''t.cpp'', line = 1, column = 1\<rparr>"

definition fn_g :: PSINode where
  "fn_g = new_PSIFunctionNode ''g'' sample_loc ''void''"

definition ns_N :: PSINode where
  "ns_N = addChild (new_PSINamespaceNode ''N'' sample_loc) (Some fn_g)"



definition plain_E :: PSINode where
  "plain_E = addChild (new_PSINode PSINodeType.ENUM ''E'' sample_loc) (Some fn_g)"




text \<open>The kind-specific visitor method that the \<open>accept\<close> override of a subclass calls.\<close>

fun kind_method :: "NodeClass \<Rightarrow> VisitorMethod" where
  "kind_method PSINodeBase = visitNode"
| "kind_method (PSIFileNode p c) = visitFile"
| "kind_method (PSINamespaceNode n) = visitNamespace"
| "kind_method (PSIClassNode n s a) = visitClass"
| "kind_method (PSIFunctionNode n r ps v s c ov) = visitFunction"
| "kind_method (PSIVariableNode n t c s m p) = visitVariable"

text \<open>The records of one kind, in their order in the record list.\<close>

definition records_of_kind :: "StubType \<Rightarrow> StubEntry list \<Rightarrow> StubEntry list" where
  "records_of_kind k stubs = filter (\<lambda>e. entry_getType e = k) stubs"

text \<open>A record list with a function, a class, a variable and a struct, in this order.\<close>

definition sample_stubs :: "StubEntry list" where
  "sample_stubs =
     [FunctionStub ''f'' sample_loc ''int'' [\<lparr>param_type = ''int'', param_name = ''x''\<rparr>],
      ClassStub ''A'' sample_loc False,
      VariableStub ''v'' sample_loc ''int'' True False,
      ClassStub ''B'' sample_loc True]"

text \<open>
  For the record store: substring containment as the spec words it, the store obtained
  by adding the records of a list one after the other to an empty store, and the agreement
  of the three index maps with the insertion list.
\<close>

definition contains_substring :: "string \<Rightarrow> string \<Rightarrow> bool" where
  "contains_substring s pat = (\<exists>before after. s = before @ pat @ after)"

definition insert_all :: "StubEntry list \<Rightarrow> StubIndex" where
  "insert_all entries = foldl (\<lambda>idx e. addEntry idx (Some e)) new_StubIndex entries"

definition index_consistent :: "StubIndex \<Rightarrow> bool" where
  "index_consistent idx \<longleftrightarrow>
     (\<forall>n. queryByName idx n = filter (\<lambda>e. entry_getName e = n) (all_entries idx)) \<and>
     (\<forall>t. queryByType idx t = filter (\<lambda>e. entry_getType e = t) (all_entries idx)) \<and>
     (\<forall>p. queryByFile idx p
            = filter (\<lambda>e. file_path (entry_getLocation e) = p) (all_entries idx))"

definition sample_index :: StubIndex where
  "sample_index =
     insert_all
       [ClassStub ''Foo'' \<lparr>file_path = ''src/a.h'', line = 1, column = 1\<rparr> False,
        FunctionStub ''Foo'' \<lparr>file_path = ''src/b.cpp'', line = 7, column = 1\<rparr> ''void'' [],
        VariableStub ''bar'' \<lparr>file_path = ''src/a.h'', line = 9, column = 1\<rparr> ''int''
          False False]"

text \<open>
  Scenario C of the spec as a store: the parent P at address 1 with the children 2 and 5,
  the node at address 2 with the two children 3 and 4.
\<close>

definition scenario_store :: store where
  "scenario_store =
     empty_store
       (1 := \<lparr>obj_type = PSINodeType.FILE, obj_text = ''P'', obj_parent = None,
               obj_children = [2, 5]\<rparr>,
        2 := \<lparr>obj_type = PSINodeType.CLASS, obj_text = ''node'', obj_parent = Some 1,
               obj_children = [3, 4]\<rparr>,
        3 := \<lparr>obj_type = PSINodeType.FUNCTION, obj_text = ''c1'', obj_parent = Some 2,
               obj_children = []\<rparr>,
        4 := \<lparr>obj_type = PSINodeType.VARIABLE, obj_text = ''c2'', obj_parent = Some 2,
               obj_children = []\<rparr>,
        5 := \<lparr>obj_type = PSINodeType.FUNCTION, obj_text = ''sibling'', obj_parent = Some 1,
               obj_children = []\<rparr>)"

section \<open>Traversals are pre-order listings\<close>

lemma kind_text_Node: "kind_text (Node d cs) = (m_type d, m_text d)"
  by (simp add: kind_text_def getType_def getText_def)

lemma foldl_collectNodesByCondition:
  assumes "\<And>c r. c \<in> set cs \<Longrightarrow>
             collectNodesByCondition (Some c) cond r = r @ filter cond (preorder c)"
  shows "foldl (\<lambda>r c. collectNodesByCondition (Some c) cond r) acc cs
         = acc @ filter cond (concat (map preorder cs))"
  using assms by (induction cs arbitrary: acc) simp_all

lemma collectNodesByCondition_preorder:
  "collectNodesByCondition (Some n) cond r = r @ filter cond (preorder n)"
proof (induction n arbitrary: r)
  case (Node d cs)
  show ?case
    by (simp add: foldl_collectNodesByCondition [OF Node.IH])
qed

lemma findNodesByCondition_preorder:
  "findNodesByCondition (Some n) cond = filter cond (preorder n)"
  by (simp add: findNodesByCondition_def collectNodesByCondition_preorder)

lemma foldl_calculateSubtreeSize:
  assumes "\<And>c. c \<in> set cs \<Longrightarrow> calculateSubtreeSize (Some c) = int (length (preorder c))"
  shows "foldl (\<lambda>size c. size + calculateSubtreeSize (Some c)) acc cs
         = acc + int (length (concat (map preorder cs)))"
  using assms by (induction cs arbitrary: acc) simp_all

lemma calculateSubtreeSize_preorder:
  "calculateSubtreeSize (Some n) = int (length (preorder n))"
proof (induction n)
  case (Node d cs)
  show ?case
    by (simp add: foldl_calculateSubtreeSize [OF Node.IH])
qed

section \<open>Cloning\<close>

lemma foldl_cloneSubtree:
  assumes "\<And>c. c \<in> set cs \<Longrightarrow> cloneSubtree (Some c) = Some (clone_node c)"
  shows "foldl (\<lambda>clone c. addChild clone (cloneSubtree (Some c))) (Node e ks) cs
         = Node e (ks @ map clone_node cs)"
  using assms by (induction cs arbitrary: ks) simp_all

lemma cloneSubtree_clone_node: "cloneSubtree (Some n) = Some (clone_node n)"
proof (induction n)
  case (Node d cs)
  show ?case
    by (simp add: new_PSINode_def foldl_cloneSubtree [OF Node.IH])
qed

lemma preorder_clone_node:
  "map kind_text (preorder (clone_node n)) = map kind_text (preorder n)"
proof (induction n)
  case (Node d cs)
  have "map kind_text (concat (map preorder (map clone_node cs)))
        = map kind_text (concat (map preorder cs))"
    using Node.IH by (induction cs) simp_all
  then show ?case
    by (simp add: kind_text_Node)
qed

lemma length_preorder_clone_node: "length (preorder (clone_node n)) = length (preorder n)"
  using preorder_clone_node [of n] by (metis length_map)

text \<open>
  Claim C8. For every root (null included), \<open>cloneSubtree\<close> yields a tree with the same
  \<open>getSubtreeSize\<close> as the root, and the full pre-order traversal of the clone (the
  search \<open>findNodesByCondition\<close> with the condition that always holds) shows the same
  sequence of (kind, text) pairs as that of the root.
\<close>

theorem cloneSubtree_size_and_preorder:
  "getSubtreeSize (cloneSubtree root_node) = getSubtreeSize root_node \<and>
   map kind_text (findNodesByCondition (cloneSubtree root_node) (\<lambda>node. True))
     = map kind_text (findNodesByCondition root_node (\<lambda>node. True))"
proof (cases root_node)
  case None
  then show ?thesis by (simp add: getSubtreeSize_def findNodesByCondition_def)
next
  case (Some n)
  then show ?thesis
    by (simp add: getSubtreeSize_def findNodesByCondition_preorder cloneSubtree_clone_node
        calculateSubtreeSize_preorder preorder_clone_node length_preorder_clone_node)
qed

section \<open>Null roots\<close>

text \<open>
  Claim C1 fails as stated: \<open>getTreeDepth\<close> answers 1 for a null root, not 0, and
  \<open>getAncestors\<close> reads the parent pointer of its argument without a null check.
\<close>

theorem null_root_counterexample:
  "getTreeDepth None \<noteq> 0 \<and>
   getAncestors empty_store None = Some (Inl NullPointerDereference)"
  by (simp add: getTreeDepth_def getAncestors_def)

text \<open>
  Claim C1, amended. The searches, traversals and metrics that hand the root to a
  null-checked helper return their empty value for a null root: the empty list, no node,
  or size 0. \<open>getTreeDepth\<close> returns 1 for a null root, the depth it gives a childless
  node. (\<open>getAncestors\<close> is not among them.)
\<close>

theorem null_root_guarded_operations:
  "findAllNodes None t = [] \<and>
   findNodesByCondition None cond = [] \<and>
   findNodesByName None name = [] \<and>
   findFirstNodeByName None name = None \<and>
   findNodesInFile None path = [] \<and>
   findNodesInLineRange None lo hi = [] \<and>
   getAllDescendants None = [] \<and>
   getLeafNodes None = [] \<and>
   getBranchNodes None = [] \<and>
   getSubtreeSize None = 0 \<and>
   getTreeDepth None = 1"
  by (simp add: findAllNodes_def findNodesByCondition_def findNodesByName_def
      findFirstNodeByName_def findNodesInFile_def findNodesInLineRange_def
      getAllDescendants_def getLeafNodes_def getBranchNodes_def getSubtreeSize_def
      getTreeDepth_def)

section \<open>Similarity of a tree with itself\<close>

text \<open>Evaluating the rounding function on numerals.\<close>

lemma exp_up_eval:
  "x < 2 \<Longrightarrow> exp_up x = 0"
  "2 \<le> x \<Longrightarrow> exp_up x = Suc (exp_up (x / 2))"
  by (simp_all add: exp_up.simps [of x])

lemma exp_down_eval:
  "x \<le> 0 \<or> 1 \<le> x \<Longrightarrow> exp_down x = 0"
  "0 < x \<Longrightarrow> x < 1 \<Longrightarrow> exp_down x = Suc (exp_down (2 * x))"
  by (simp_all add: exp_down.simps [of x])

lemma floor_rat_numeral_quotient:
  "\<lfloor>(numeral a :: rat) / numeral b\<rfloor> = numeral a div numeral b"
  by (metis floor_divide_of_int_eq of_int_numeral)

lemmas double_eval =
  round_double_def binary_exponent_def exp_up_eval exp_down_eval pow2_def
  round_half_even_def Let_def floor_rat_numeral_quotient


text \<open>
  Some roundings: 0.1 and one third are not doubles; a value halfway between two doubles
  goes to the one with the even significand, below and above \<open>2 ^ 53\<close> alike.
\<close>

lemma round_double_examples:
  "round_double (1 / 10) = 3602879701896397 / 36028797018963968"
  "round_double (1 / 3) = 6004799503160661 / 18014398509481984"
  "round_double (1 + 1 / 2 ^ 53) = 1"
  "round_double (1 + 3 / 2 ^ 53) = 1 + 4 / 2 ^ 53"
  "round_double (2 ^ 53 + 1) = 2 ^ 53"
  "round_double (2 ^ 53 + 3) = 2 ^ 53 + 4"
  by (simp_all add: double_eval)














section \<open>Differences\<close>

lemma foldl_collectDescendants:
  assumes "\<And>c r. c \<in> set cs \<Longrightarrow> collectDescendants (Some c) r = r @ tl (preorder c)"
  shows "foldl (\<lambda>r c. collectDescendants (Some c) (r @ [c])) acc cs
         = acc @ concat (map preorder cs)"
  using assms
proof (induction cs arbitrary: acc)
  case Nil
  then show ?case by simp
next
  case (Cons c cs)
  have "c # tl (preorder c) = preorder c" by (cases c) simp
  then show ?case using Cons by simp
qed

lemma collectDescendants_preorder:
  "collectDescendants (Some n) r = r @ tl (preorder n)"
proof (induction n arbitrary: r)
  case (Node d cs)
  show ?case by (simp add: foldl_collectDescendants [OF Node.IH])
qed

lemma getAllDescendants_preorder: "getAllDescendants (Some n) = tl (preorder n)"
  by (simp add: getAllDescendants_def collectDescendants_preorder)

lemma found_in_iff: "found_in n ms \<longleftrightarrow> (\<exists>m\<in>set ms. kind_text n = kind_text m)"
  by (induction ms) (auto simp: kind_text_def)

lemma foldl_differences:
  "foldl (\<lambda>differences node1.
            if \<not> found_in node1 ms then differences @ [node1] else differences) acc ns
   = acc @ filter (\<lambda>n. \<not> found_in n ms) ns"
  by (induction ns arbitrary: acc) simp_all

text \<open>
  Claim C9 fails as stated: the one-node tree \<open>leafA\<close> is a node of the first tree, no
  node of the second tree has its kind and text, and yet \<open>findDifferences\<close> returns
  nothing. The roots are never compared: both node lists come from \<open>getAllDescendants\<close>.
\<close>

theorem findDifferences_counterexample:
  "findDifferences (Some leafA) (Some leafB) = [] \<and>
   leafA \<in> set (findNodesByCondition (Some leafA) (\<lambda>node. True)) \<and>
   \<not> found_in leafA (findNodesByCondition (Some leafB) (\<lambda>node. True))"
  by (simp add: findDifferences_def getAllDescendants_def findNodesByCondition_def
      leafA_def leafB_def new_PSINode_def getType_def getText_def)

text \<open>
  Claim C9, amended. For non-null trees t1 and t2, \<open>findDifferences\<close> returns, in
  pre-order, exactly those proper descendants of t1 (its root excluded) for which no proper
  descendant of t2 (its root excluded) has an equal (kind, text) pair, whatever their
  positions. The full traversal of a tree is its root followed by these descendants.
\<close>

theorem findDifferences_descendants:
  "findDifferences (Some t1) (Some t2) =
     filter (\<lambda>n. \<not> (\<exists>m \<in> set (getAllDescendants (Some t2)). kind_text n = kind_text m))
            (getAllDescendants (Some t1)) \<and>
   findNodesByCondition (Some t1) (\<lambda>node. True) = t1 # getAllDescendants (Some t1) \<and>
   findNodesByCondition (Some t2) (\<lambda>node. True) = t2 # getAllDescendants (Some t2)"
proof -
  have root_first: "preorder t = t # tl (preorder t)" for t
    by (cases t) simp
  have "findDifferences (Some t1) (Some t2) =
          filter (\<lambda>n. \<not> found_in n (getAllDescendants (Some t2))) (getAllDescendants (Some t1))"
    by (simp add: findDifferences_def Let_def foldl_differences)
  moreover have "findNodesByCondition (Some t) (\<lambda>node. True) = t # getAllDescendants (Some t)" for t
    using root_first [of t]
    by (simp add: findNodesByCondition_preorder getAllDescendants_preorder)
  ultimately show ?thesis
    by (simp add: found_in_iff)
qed

theorem findDifferences_descendants_witness:
  "findDifferences (Some (Node (data leafA) [leafB, leafA])) (Some (Node (data leafB) [leafB])) = [leafA]"
  using findDifferences_descendants [of "Node (data leafA) [leafB, leafA]" "Node (data leafB) [leafB]"]
  by (simp add: getAllDescendants_def leafA_def leafB_def new_PSINode_def kind_text_def getType_def getText_def)

section \<open>Semantic information in queries\<close>

lemma filters_hold_append:
  "filters_hold (fs @ [f]) node \<longleftrightarrow> filters_hold fs node \<and> f node"
  by (induction fs) auto

text \<open>
  Claim C10. If a node \<open>n\<close> has no entry for a key, \<open>getSemanticInfo\<close> returns the empty
  string for it. A query filter \<open>withSemanticInfo key ""\<close> therefore accepts \<open>n\<close>, just as
  it accepts a node \<open>n'\<close> that stores the empty string under the key: on both, the query
  with the added filter decides as the query without it, and \<open>execute\<close> on a tree that
  contains \<open>n\<close> returns \<open>n\<close>.
\<close>

theorem withSemanticInfo_empty_value:
  assumes "\<not> hasSemanticInfo n key"
    and "hasSemanticInfo n' key \<and> getSemanticInfo n' key = []"
  shows "getSemanticInfo n key = [] \<and>
         matchesFilters (withSemanticInfo key [] q) n = matchesFilters q n \<and>
         matchesFilters (withSemanticInfo key [] q) n' = matchesFilters q n' \<and>
         (n \<in> set (findNodesByCondition (Some r) (\<lambda>node. True)) \<longrightarrow>
            n \<in> set (execute (withSemanticInfo key [] (new_PSITreeQuery (Some r)))))"
  using assms
  by (simp add: hasSemanticInfo_def getSemanticInfo_def matchesFilters_def
      withSemanticInfo_def filters_hold_append execute_def new_PSITreeQuery_def
      findNodesByCondition_preorder)

theorem withSemanticInfo_empty_value_witness:
  "\<not> hasSemanticInfo leafA ''k'' \<and>
   hasSemanticInfo (setSemanticInfo leafA ''k'' []) ''k'' \<and>
   getSemanticInfo (setSemanticInfo leafA ''k'' []) ''k'' = [] \<and>
   getSemanticInfo leafA ''k'' = [] \<and>
   matchesFilters (withSemanticInfo ''k'' [] (new_PSITreeQuery (Some leafA))) leafA \<and>
   matchesFilters (withSemanticInfo ''k'' [] (new_PSITreeQuery (Some leafA)))
     (setSemanticInfo leafA ''k'' []) \<and>
   leafA \<in> set (execute (withSemanticInfo ''k'' [] (new_PSITreeQuery (Some leafA))))"
proof -
  have a: "\<not> hasSemanticInfo leafA ''k''"
    by (simp add: hasSemanticInfo_def leafA_def new_PSINode_def)
  have b: "hasSemanticInfo (setSemanticInfo leafA ''k'' []) ''k'' \<and>
           getSemanticInfo (setSemanticInfo leafA ''k'' []) ''k'' = []"
    by (simp add: hasSemanticInfo_def getSemanticInfo_def setSemanticInfo_def leafA_def
        new_PSINode_def)
  have c: "leafA \<in> set (findNodesByCondition (Some leafA) (\<lambda>node. True))"
    by (simp add: findNodesByCondition_def leafA_def new_PSINode_def)
  have d: "matchesFilters (new_PSITreeQuery (Some leafA)) x" for x
    by (simp add: matchesFilters_def new_PSITreeQuery_def)
  from withSemanticInfo_empty_value [OF a b, of "new_PSITreeQuery (Some leafA)" leafA] a b c d
  show ?thesis by simp
qed


section \<open>Transforming and pruning\<close>












section \<open>Visiting\<close>

lemma visit_plain_node:
  "m_class (data n) = PSINodeBase \<Longrightarrow> PSIVisitor visit (Some n) tr = tr"
  by (cases n) simp

lemma visit_subclass_node:
  "m_class (data n) \<noteq> PSINodeBase \<Longrightarrow>
   PSIVisitor visit (Some n) tr =
     foldl (\<lambda>t c. PSIVisitor visit (Some c) t)
       (tr @ [(kind_method (m_class (data n)), getText n), (visitNode, getText n)])
       (getChildren n)"
  by (cases n; cases "m_class (data n)") (simp_all add: node_text_def getText_def)

lemma visit_clone: "PSIVisitor visit (cloneSubtree root_node) tr = tr"
proof (cases root_node)
  case None
  then show ?thesis by simp
next
  case (Some n)
  have "m_class (data (clone_node n)) = PSINodeBase" by (cases n) simp
  then have "PSIVisitor visit (Some (clone_node n)) tr = tr"
    by (rule visit_plain_node)
  then show ?thesis using Some by (simp only: cloneSubtree_clone_node)
qed

text \<open>
  Claim C7 is not met by the code for plain \<open>PSINode\<close> objects. Visiting the plain node
  \<open>plain_E\<close>, whose child is the function \<open>g\<close>, enters no visitor method at all: neither
  \<open>visitNode\<close> on it nor any method on its child, although visiting the child by itself
  enters \<open>visitFunction\<close> and \<open>visitNode\<close>. Under the namespace node \<open>ns_N\<close> the same
  child is reached.
\<close>

theorem visit_plain_node_skips_children:
  "PSIVisitor visit (Some plain_E) [] = [] \<and>
   getChildren plain_E = [fn_g] \<and>
   PSIVisitor visit (Some fn_g) [] = [(visitFunction, ''g''), (visitNode, ''g'')] \<and>
   PSIVisitor visit (Some ns_N) []
     = [(visitNamespace, ''N''), (visitNode, ''N''), (visitFunction, ''g''), (visitNode, ''g'')]"
  by (simp add: plain_E_def ns_N_def fn_g_def new_PSINode_def new_PSINamespaceNode_def
      new_PSIFunctionNode_def node_text_def getText_def)


section \<open>Building the tree\<close>

lemma foldl_addChild_filter:
  "foldl (\<lambda>p stub. if P stub then addChild p (Some (g stub)) else p) (Node d ks) stubs
   = Node d (ks @ map g (filter P stubs))"
  by (induction stubs arbitrary: ks) simp_all

lemma getSemanticInfo_set [simp]: "getSemanticInfo (setSemanticInfo n k v) k = v"
  by (simp add: getSemanticInfo_def setSemanticInfo_def update_conv')

lemma getText_setSemanticInfo [simp]: "getText (setSemanticInfo n k v) = getText n"
  by (simp add: getText_def setSemanticInfo_def)

lemma getType_setSemanticInfo [simp]: "getType (setSemanticInfo n k v) = getType n"
  by (simp add: getType_def setSemanticInfo_def)

lemma getText_addParameter [simp]: "getText (addParameter n t nm dv) = getText n"
  by (simp add: getText_def addParameter_def split: NodeClass.splits)

lemma getType_addParameter [simp]: "getType (addParameter n t nm dv) = getType n"
  by (simp add: getType_def addParameter_def split: NodeClass.splits)

lemma getText_foldl_addParameter [simp]:
  "getText (foldl (\<lambda>n param. addParameter n (f param) (g param) []) n ps) = getText n"
  by (induction ps arbitrary: n) simp_all

lemma getType_foldl_addParameter [simp]:
  "getType (foldl (\<lambda>n param. addParameter n (f param) (g param) []) n ps) = getType n"
  by (induction ps arbitrary: n) simp_all

lemma createClassNode_facts:
  "getSemanticInfo (createClassNode e) ''stub_id'' = entry_getName e \<and>
   getText (createClassNode e) = entry_getName e \<and>
   getType (createClassNode e) = (if isStruct e then PSINodeType.STRUCT else PSINodeType.CLASS)"
  by (simp add: createClassNode_def) (simp add: new_PSIClassNode_def getText_def getType_def)

lemma createFunctionNode_facts:
  "getSemanticInfo (createFunctionNode e) ''stub_id'' = entry_getName e \<and>
   getText (createFunctionNode e) = entry_getName e \<and>
   getType (createFunctionNode e) = PSINodeType.FUNCTION"
  by (simp add: createFunctionNode_def Let_def)
     (simp add: new_PSIFunctionNode_def getText_def getType_def)

lemma createVariableNode_facts:
  "getSemanticInfo (createVariableNode e) ''stub_id'' = entry_getName e \<and>
   getText (createVariableNode e) = entry_getName e \<and>
   getType (createVariableNode e) = PSINodeType.VARIABLE"
  by (simp add: createVariableNode_def Let_def)
     (simp add: new_PSIVariableNode_def getText_def getType_def setConst_def setStatic_def)

lemma build_children:
  "getChildren (buildTreeFromContent parseCode path content) =
     map createClassNode (records_of_kind StubType.CLASS (parseCode content path)) @
     map createFunctionNode (records_of_kind StubType.FUNCTION (parseCode content path)) @
     map createVariableNode (records_of_kind StubType.VARIABLE (parseCode content path))"
  by (simp add: buildTreeFromContent_def Let_def new_PSIFileNode_def
      buildClassStructure_def buildFunctionStructure_def buildVariableStructure_def
      foldl_addChild_filter records_of_kind_def)

text \<open>
  Claim C4. For every record list the parser returns, the built tree has a File root whose
  direct children number N + M + K for N class, M function and K variable records. The
  children are the nodes created for the class records, then those for the function
  records, then those for the variable records, each group in the order of the records:
  kinds CLASS or STRUCT first, then FUNCTION, then VARIABLE. The text of every child and
  its semantic-info entry \<open>stub_id\<close> are the name of its record.
\<close>

theorem build_flat_grouping:
  fixes parseCode path content
  defines "stubs \<equiv> parseCode content path"
  defines "tree \<equiv> buildTreeFromContent parseCode path content"
  shows "getType tree = PSINodeType.FILE \<and>
   length (getChildren tree) =
     length (records_of_kind StubType.CLASS stubs) +
     length (records_of_kind StubType.FUNCTION stubs) +
     length (records_of_kind StubType.VARIABLE stubs) \<and>
   getChildren tree =
     map createClassNode (records_of_kind StubType.CLASS stubs) @
     map createFunctionNode (records_of_kind StubType.FUNCTION stubs) @
     map createVariableNode (records_of_kind StubType.VARIABLE stubs) \<and>
   map getType (getChildren tree) =
     map (\<lambda>e. if isStruct e then PSINodeType.STRUCT else PSINodeType.CLASS)
         (records_of_kind StubType.CLASS stubs) @
     map (\<lambda>e. PSINodeType.FUNCTION) (records_of_kind StubType.FUNCTION stubs) @
     map (\<lambda>e. PSINodeType.VARIABLE) (records_of_kind StubType.VARIABLE stubs) \<and>
   map getText (getChildren tree) =
     map entry_getName (records_of_kind StubType.CLASS stubs @
                        records_of_kind StubType.FUNCTION stubs @
                        records_of_kind StubType.VARIABLE stubs) \<and>
   map (\<lambda>child. getSemanticInfo child ''stub_id'') (getChildren tree) =
     map entry_getName (records_of_kind StubType.CLASS stubs @
                        records_of_kind StubType.FUNCTION stubs @
                        records_of_kind StubType.VARIABLE stubs)"
proof -
  have "getType tree = PSINodeType.FILE"
    unfolding tree_def
    by (simp add: buildTreeFromContent_def Let_def new_PSIFileNode_def
      buildClassStructure_def buildFunctionStructure_def buildVariableStructure_def
      foldl_addChild_filter getType_def)
  then show ?thesis
    unfolding tree_def stubs_def
    by (simp add: build_children createClassNode_facts createFunctionNode_facts
        createVariableNode_facts comp_def)
qed


theorem build_flat_grouping_witness:
  "map getText (getChildren (buildTreeFromContent (\<lambda>content path. sample_stubs) ''t.cpp'' ''src''))
     = [''A'', ''B'', ''f'', ''v''] \<and>
   map (\<lambda>child. getSemanticInfo child ''stub_id'')
       (getChildren (buildTreeFromContent (\<lambda>content path. sample_stubs) ''t.cpp'' ''src''))
     = [''A'', ''B'', ''f'', ''v''] \<and>
   map getType (getChildren (buildTreeFromContent (\<lambda>content path. sample_stubs) ''t.cpp'' ''src''))
     = [PSINodeType.CLASS, PSINodeType.STRUCT, PSINodeType.FUNCTION, PSINodeType.VARIABLE]"
proof -
  have c: "records_of_kind StubType.CLASS sample_stubs
             = [ClassStub ''A'' sample_loc False, ClassStub ''B'' sample_loc True]"
    by (simp add: records_of_kind_def sample_stubs_def)
  have f: "records_of_kind StubType.FUNCTION sample_stubs
             = [FunctionStub ''f'' sample_loc ''int''
                  [\<lparr>param_type = ''int'', param_name = ''x''\<rparr>]]"
    by (simp add: records_of_kind_def sample_stubs_def)
  have v: "records_of_kind StubType.VARIABLE sample_stubs
             = [VariableStub ''v'' sample_loc ''int'' True False]"
    by (simp add: records_of_kind_def sample_stubs_def)
  from build_flat_grouping [of "\<lambda>content path. sample_stubs" "''t.cpp''" "''src''"]
  show ?thesis
    by (simp add: c f v createClassNode_facts createFunctionNode_facts
        createVariableNode_facts)
qed

section \<open>Composite queries on the record store\<close>

lemma str_find_contains: "str_find s pat \<noteq> None \<longleftrightarrow> contains_substring s pat"
proof (induction s)
  case Nil
  show ?case by (auto simp: contains_substring_def)
next
  case (Cons c cs)
  show ?case
  proof (cases "take (length pat) (c # cs) = pat")
    case True
    then have "c # cs = [] @ pat @ drop (length pat) (c # cs)"
      by (metis append_Nil append_take_drop_id)
    then have "contains_substring (c # cs) pat"
      unfolding contains_substring_def by blast
    with True show ?thesis by simp
  next
    case False
    have "contains_substring (c # cs) pat \<longleftrightarrow> contains_substring cs pat"
    proof
      assume "contains_substring (c # cs) pat"
      then obtain before after where eq: "c # cs = before @ pat @ after"
        unfolding contains_substring_def by blast
      show "contains_substring cs pat"
      proof (cases before)
        case Nil
        with eq have "take (length pat) (c # cs) = pat" by simp
        with False show ?thesis by simp
      next
        case (Cons b bs)
        with eq have "cs = bs @ pat @ after" by simp
        then show ?thesis unfolding contains_substring_def by blast
      qed
    next
      assume "contains_substring cs pat"
      then obtain before after where "cs = before @ pat @ after"
        unfolding contains_substring_def by blast
      then have "c # cs = (c # before) @ pat @ after" by simp
      then show "contains_substring (c # cs) pat"
        unfolding contains_substring_def by blast
    qed
    with False Cons show ?thesis by simp
  qed
qed

lemma contains_empty: "contains_substring s []"
proof -
  have "s = [] @ [] @ s" by simp
  then show ?thesis unfolding contains_substring_def by blast
qed

lemma foldl_keep:
  "foldl (\<lambda>result entry. if skip entry then result else result @ [entry]) acc es
   = acc @ filter (\<lambda>e. \<not> skip e) es"
  by (induction es arbitrary: acc) simp_all

lemma foldl_keep2:
  "foldl (\<lambda>result entry. if skip1 entry then result
                           else if skip2 entry then result else result @ [entry]) acc es
   = acc @ filter (\<lambda>e. \<not> skip1 e \<and> \<not> skip2 e) es"
  by (induction es arbitrary: acc) simp_all

lemma foldl_copy: "foldl (\<lambda>result entry. result @ [entry]) acc es = acc @ es"
  by (induction es arbitrary: acc) simp_all

lemma file_test:
  "(pat \<noteq> [] \<and> str_find s pat = None) \<longleftrightarrow> \<not> contains_substring s pat"
  using str_find_contains [of s pat] contains_empty [of s] by (cases "pat = []") auto

lemma index_consistent_new: "index_consistent new_StubIndex"
  by (simp add: index_consistent_def new_StubIndex_def queryByName_def queryByType_def queryByFile_def)

lemma index_consistent_addEntry:
  "index_consistent idx \<Longrightarrow> index_consistent (addEntry idx entry)"
  by (cases entry)
     (auto simp: index_consistent_def addEntry_def queryByName_def queryByType_def
       queryByFile_def push_back_at_def split: option.splits)

lemma foldl_addEntry:
  "index_consistent idx \<Longrightarrow>
   index_consistent (foldl (\<lambda>idx e. addEntry idx (Some e)) idx es) \<and>
   all_entries (foldl (\<lambda>idx e. addEntry idx (Some e)) idx es) = all_entries idx @ es"
proof (induction es arbitrary: idx)
  case Nil
  then show ?case by simp
next
  case (Cons e es)
  have "all_entries (addEntry idx (Some e)) = all_entries idx @ [e]"
    by (simp add: addEntry_def)
  with Cons.IH [OF index_consistent_addEntry [OF Cons.prems], of "Some e"] show ?case by simp
qed

lemma insert_all_facts:
  "index_consistent (insert_all es) \<and> all_entries (insert_all es) = es"
  using foldl_addEntry [OF index_consistent_new, of es]
  by (simp add: insert_all_def new_StubIndex_def)


text \<open>
  Claim C5. For every store and every filter, \<open>query\<close> follows the precedence of the
  spec. (a) With a non-empty name pattern it looks the name up and keeps the records whose
  kind is the filter's kind, unless that kind is \<open>TYPEDEF\<close> (the no-kind-filter value of
  this branch), and whose file path contains the file pattern as a substring. (b) Otherwise,
  if the kind is not \<open>CLASS\<close> (the no-kind-filter value of this branch), it looks the kind
  up and keeps the records whose file path contains the file pattern. (c) Otherwise, with a
  non-empty file pattern, it looks the file up by the exact path. (d) Otherwise it returns
  the insertion list. For a store filled by adding the records of a list in turn, the
  insertion list is that list, and the three lookups select from it by name, kind and file.
\<close>

theorem query_precedence:
  "query idx flt =
     (if name_pattern flt \<noteq> [] then
        filter (\<lambda>e. (type_filter flt = StubType.TYPEDEF \<or> entry_getType e = type_filter flt)
                   \<and> contains_substring (file_path (entry_getLocation e)) (file_pattern flt))
               (queryByName idx (name_pattern flt))
      else if type_filter flt \<noteq> StubType.CLASS then
        filter (\<lambda>e. contains_substring (file_path (entry_getLocation e)) (file_pattern flt))
               (queryByType idx (type_filter flt))
      else if file_pattern flt \<noteq> [] then queryByFile idx (file_pattern flt)
      else all_entries idx) \<and>
   all_entries (insert_all entries) = entries \<and>
   index_consistent (insert_all entries)"
  by (simp add: query_def foldl_keep foldl_keep2 foldl_copy file_test insert_all_facts)


theorem query_precedence_witness:
  "query sample_index \<lparr>type_filter = StubType.CLASS, name_pattern = ''Foo'', file_pattern = []\<rparr>
     = [ClassStub ''Foo'' \<lparr>file_path = ''src/a.h'', line = 1, column = 1\<rparr> False] \<and>
   query sample_index \<lparr>type_filter = StubType.TYPEDEF, name_pattern = ''Foo'', file_pattern = []\<rparr>
     = [ClassStub ''Foo'' \<lparr>file_path = ''src/a.h'', line = 1, column = 1\<rparr> False,
        FunctionStub ''Foo'' \<lparr>file_path = ''src/b.cpp'', line = 7, column = 1\<rparr> ''void'' []] \<and>
   query sample_index \<lparr>type_filter = StubType.FUNCTION, name_pattern = [], file_pattern = ''b.c''\<rparr>
     = [FunctionStub ''Foo'' \<lparr>file_path = ''src/b.cpp'', line = 7, column = 1\<rparr> ''void'' []] \<and>
   query sample_index \<lparr>type_filter = StubType.CLASS, name_pattern = [], file_pattern = ''a.h''\<rparr>
     = [] \<and>
   query sample_index \<lparr>type_filter = StubType.CLASS, name_pattern = [], file_pattern = []\<rparr>
     = all_entries sample_index"
proof -
  have idx: "queryByName sample_index ''Foo''
               = [ClassStub ''Foo'' \<lparr>file_path = ''src/a.h'', line = 1, column = 1\<rparr> False,
                  FunctionStub ''Foo'' \<lparr>file_path = ''src/b.cpp'', line = 7, column = 1\<rparr> ''void'' []]"
    "queryByType sample_index StubType.FUNCTION
               = [FunctionStub ''Foo'' \<lparr>file_path = ''src/b.cpp'', line = 7, column = 1\<rparr> ''void'' []]"
    "queryByFile sample_index ''a.h'' = []"
    by (simp_all add: sample_index_def insert_all_def addEntry_def push_back_at_def
        new_StubIndex_def queryByName_def queryByType_def queryByFile_def)
  have sub: "contains_substring ''src/b.cpp'' ''b.c''"
    by (simp add: str_find_contains [symmetric])
  show ?thesis
    using query_precedence [of sample_index
            "\<lparr>type_filter = StubType.CLASS, name_pattern = ''Foo'', file_pattern = []\<rparr>"]
      query_precedence [of sample_index
            "\<lparr>type_filter = StubType.TYPEDEF, name_pattern = ''Foo'', file_pattern = []\<rparr>"]
      query_precedence [of sample_index
            "\<lparr>type_filter = StubType.FUNCTION, name_pattern = [], file_pattern = ''b.c''\<rparr>"]
      query_precedence [of sample_index
            "\<lparr>type_filter = StubType.CLASS, name_pattern = [], file_pattern = ''a.h''\<rparr>"]
      query_precedence [of sample_index
            "\<lparr>type_filter = StubType.CLASS, name_pattern = [], file_pattern = []\<rparr>"]
    by (simp add: idx sub contains_empty)
qed


section \<open>Removing a node\<close>

lemma foldl_reparent:
  "obj_children
     (foldl (\<lambda>s child. push_back_child (setParent s child (Some p)) p child) h cs x)
     = (if x = p then obj_children (h x) @ cs else obj_children (h x)) \<and>
   obj_parent
     (foldl (\<lambda>s child. push_back_child (setParent s child (Some p)) p child) h cs x)
     = (if x \<in> set cs then Some p else obj_parent (h x))"
proof (induction cs arbitrary: h)
  case Nil
  show ?case by simp
next
  case (Cons c cs)
  show ?case
    by (simp add: Cons.IH) (simp add: push_back_child_def setParent_def)
qed

text \<open>
  In general: when the node has a parent other than itself, \<open>removeNode\<close> with
  \<open>keep_children\<close> appends the children of the node to those of the parent, removes the
  first occurrence of the node there, makes the parent the parent of each child, and
  leaves the parent pointer of the node as it was.
\<close>

lemma removeNode_keep_children:
  assumes "obj_parent (h n) = Some p" and "p \<noteq> n"
  shows "\<exists>h'. removeNode h (Some n) True = Inr h' \<and>
           obj_children (h' p) = remove1 n (obj_children (h p) @ obj_children (h n)) \<and>
           (\<forall>c \<in> set (obj_children (h n)). obj_parent (h' c) = Some p) \<and>
           obj_parent (h' n) = Some p"
  using assms
  by (simp add: removeNode_def Let_def foldl_reparent)


text \<open>
  Claim C3 is not met by the code in its last part. In scenario C, after
  \<open>removeNode\<close> with \<open>keep_children\<close> the children list of P no longer contains the node
  and ends with the two re-parented children, whose parent is P; but the parent pointer of
  the removed node still is P and not null.
\<close>

theorem removeNode_leaves_parent_pointer:
  "(case removeNode scenario_store (Some 2) True of
      Inl f \<Rightarrow> False
    | Inr h' \<Rightarrow>
        obj_children (h' 1) = [5, 3, 4] \<and>
        obj_parent (h' 3) = Some 1 \<and>
        obj_parent (h' 4) = Some 1 \<and>
        obj_parent (h' 2) = Some 1 \<and>
        obj_parent (h' 2) \<noteq> None)"
  by (simp add: removeNode_def scenario_store_def empty_store_def
      setParent_def push_back_child_def Let_def)

section \<open>Ancestors in the scenario store\<close>

text \<open>
  On a store whose parent pointers end at a root the loop of \<open>getAncestors\<close> returns: for
  the child at address 3 of scenario C the ancestors are the root P and then the node.
\<close>

lemma getAncestors_scenario: "getAncestors scenario_store (Some 3) = Some (Inr [1, 2])"
  by (simp add: getAncestors_def ancestors_loop.simps scenario_store_def empty_store_def)

end
